theory Spec2Isabelle
  imports Complex_Main "HOL-Library.Sublist"
begin

chapter \<open>The plugin\<close>

section \<open>Strings and fixed texts of the plugin\<close>

text \<open>
  A JavaScript string is modelled as the \<^typ>\<open>string\<close> of its UTF-8 bytes. The plugin's
  fixed Chinese texts are written byte by byte; none of the properties below depends on
  the length of one of them.
\<close>

definition timeoutMessage :: string where
  "timeoutMessage =
     [CHR 0xE5, CHR 0x93, CHR 0x8D, CHR 0xE5, CHR 0xBA, CHR 0x94, CHR 0xE8, CHR 0xB6, CHR 0x85,
      CHR 0xE6, CHR 0x97, CHR 0xB6]"

definition apologyPrefix :: string where
  "apologyPrefix =
     [CHR 0xE6, CHR 0x8A, CHR 0xB1, CHR 0xE6, CHR 0xAD, CHR 0x89, CHR 0xEF, CHR 0xBC, CHR 0x8C,
      CHR 0xE7, CHR 0x94, CHR 0x9F, CHR 0xE6, CHR 0x88, CHR 0x90, CHR 0xE5, CHR 0x9B, CHR 0x9E,
      CHR 0xE5, CHR 0xA4, CHR 0x8D, CHR 0xE6, CHR 0x97, CHR 0xB6, CHR 0xE5, CHR 0x8F, CHR 0x91,
      CHR 0xE7, CHR 0x94, CHR 0x9F, CHR 0xE9, CHR 0x94, CHR 0x99, CHR 0xE8, CHR 0xAF, CHR 0xAF]
     @ '': ''"

section \<open>Data model\<close>

text \<open>One message of a conversation: \<open>{role, content}\<close>. The role is a free string.\<close>

record turn =
  role :: string
  content :: string

text \<open>The \<open>usageLimit\<close> object of the configuration.\<close>

record usage_limit =
  enabled :: bool
  maxMessagesPerUser :: int

text \<open>
  The configuration options the modelled functions read. \<open>contextSize\<close> is
  \<open>Schema.number()\<close> with no bound and no step: any number, of either sign and with
  or without a fraction, so it is a real number, as is \<open>triggerRatio\<close>, which is
  compared with a random sample. \<open>responseTimeout\<close> is a number of seconds of either
  sign; \<open>triggerPrefix\<close> has no default and may be undefined.
\<close>

record config =
  systemPrompt :: string
  contextSize :: real
  responseTimeout :: int
  triggerRatio :: real
  triggerPrefix :: "string option"
  triggerPrivate :: bool
  triggerGroup :: bool
  showThinkingMessage :: bool
  usageLimit :: "usage_limit option"

text \<open>
  A row of table \<open>chatModelContext\<close> (primary key \<open>userId\<close>): the json column
  \<open>context\<close>, which may be null, and \<open>updatedAt\<close> in epoch milliseconds.
\<close>

record context_row =
  context' :: "turn list option"
  updatedAt :: int

section \<open>The database collaborator\<close>

text \<open>
  Modelled from the spec: the host's database, which is not part of the repository. Its
  contract is \<open>get(table, {userId})\<close>, \<open>set(table, {userId}, patch)\<close> returning the
  number of rows it affected, and \<open>create(table, record)\<close>. A table with a primary key
  is a map from the key to its row. Rows are values: a caller that changes the list it
  was given does not change the table.
\<close>

definition db_get :: "('k \<rightharpoonup> 'r) \<Rightarrow> 'k \<Rightarrow> 'r list" where
  "db_get tbl k = (case tbl k of None \<Rightarrow> [] | Some r \<Rightarrow> [r])"

definition db_set :: "('k \<rightharpoonup> 'r) \<Rightarrow> 'k \<Rightarrow> ('r \<Rightarrow> 'r) \<Rightarrow> nat \<times> ('k \<rightharpoonup> 'r)" where
  "db_set tbl k patch = (case tbl k of None \<Rightarrow> (0, tbl) | Some r \<Rightarrow> (1, tbl(k \<mapsto> patch r)))"

definition db_create :: "('k \<rightharpoonup> 'r) \<Rightarrow> 'k \<Rightarrow> 'r \<Rightarrow> ('k \<rightharpoonup> 'r)" where
  "db_create tbl k r = tbl(k \<mapsto> r)"

section \<open>Context store\<close>

definition getUserContext :: "(string \<rightharpoonup> context_row) \<Rightarrow> string \<Rightarrow> turn list" where
  "getUserContext tbl uid =
     (case db_get tbl uid of
        [] \<Rightarrow> []
      | r # _ \<Rightarrow> (case context' r of None \<Rightarrow> [] | Some c \<Rightarrow> c))"

definition saveUserContext ::
  "(string \<rightharpoonup> context_row) \<Rightarrow> string \<Rightarrow> turn list \<Rightarrow> int \<Rightarrow> (string \<rightharpoonup> context_row)" where
  "saveUserContext tbl uid ctx now =
     (case db_set tbl uid (\<lambda>r. r\<lparr>context' := Some ctx, updatedAt := now\<rparr>) of
        (result, tbl') \<Rightarrow>
          if result = 0
          then db_create tbl' uid \<lparr>context' = Some ctx, updatedAt = now\<rparr>
          else tbl')"

definition clearUserContext ::
  "(string \<rightharpoonup> context_row) \<Rightarrow> string \<Rightarrow> int \<Rightarrow> (string \<rightharpoonup> context_row)" where
  "clearUserContext tbl uid now =
     snd (db_set tbl uid (\<lambda>r. r\<lparr>context' := Some [], updatedAt := now\<rparr>))"

section \<open>Message handler\<close>

text \<open>\<open>userContext.splice(1, 2)\<close>: removes the entries at indices 1 and 2, as far as they exist.\<close>

definition splice12 :: "'a list \<Rightarrow> 'a list" where
  "splice12 xs = take 1 xs @ drop 3 xs"

text \<open>
  The loop \<open>while (userContext.length > config.contextSize * 2 + 1) userContext.splice(1, 2)\<close>.
  On a list of at most one entry the splice removes nothing, so the loop does not end
  when the bound is below that length: the value is then \<open>None\<close>.
\<close>

partial_function (option) limitContext :: "real \<Rightarrow> turn list \<Rightarrow> turn list option" where
  "limitContext n xs =
     (if real (length xs) > n * 2 + 1 then limitContext n (splice12 xs) else Some xs)"

text \<open>The system prompt is put first: inserted when absent, its content overwritten otherwise.\<close>

definition ensureSystem :: "config \<Rightarrow> turn list \<Rightarrow> turn list" where
  "ensureSystem cfg xs =
     (case xs of
        [] \<Rightarrow> [\<lparr>role = ''system'', content = systemPrompt cfg\<rparr>]
      | x # rest \<Rightarrow>
          if role x \<noteq> ''system''
          then \<lparr>role = ''system'', content = systemPrompt cfg\<rparr> # x # rest
          else x\<lparr>content := systemPrompt cfg\<rparr> # rest)"

text \<open>
  The handler returned by \<open>createMessageHandler\<close>. \<open>outcome\<close> is how
  \<open>Promise.race\<close> settles: \<open>Inr\<close> the adapter's response, \<open>Inl\<close> the message of
  the error it rejects with (the adapter's, or \<^const>\<open>timeoutMessage\<close> of the timer). The
  result is the reply and the context table after the call, \<open>None\<close> when the call does
  not return.
\<close>

definition messageHandler ::
  "config \<Rightarrow> (string \<rightharpoonup> context_row) \<Rightarrow> string \<Rightarrow> string \<Rightarrow> int \<Rightarrow> string + string
     \<Rightarrow> (string \<times> (string \<rightharpoonup> context_row)) option" where
  "messageHandler cfg tbl uid msg now outcome =
     (case limitContext (contextSize cfg)
             (getUserContext tbl uid @ [\<lparr>role = ''user'', content = msg\<rparr>]) of
        None \<Rightarrow> None
      | Some trimmed \<Rightarrow>
          (let userContext = ensureSystem cfg trimmed in
           case outcome of
             Inr response \<Rightarrow>
               Some (response,
                     saveUserContext tbl uid
                       (userContext @ [\<lparr>role = ''assistant'', content = response\<rparr>]) now)
           | Inl message \<Rightarrow> Some (apologyPrefix @ message, tbl)))"

text \<open>
  A stored context as the handler leaves it: empty, or the system turn followed by
  user and assistant turns in pairs.
\<close>

fun pairsWf :: "turn list \<Rightarrow> bool" where
  "pairsWf [] = True"
| "pairsWf [x] = False"
| "pairsWf (u # a # rest) = (role u = ''user'' \<and> role a = ''assistant'' \<and> pairsWf rest)"

definition ctxWf :: "turn list \<Rightarrow> bool" where
  "ctxWf xs = (case xs of [] \<Rightarrow> True | s # rest \<Rightarrow> role s = ''system'' \<and> pairsWf rest)"

section \<open>Usage limiter\<close>

text \<open>A row of table \<open>chatModelUsage\<close> (primary key \<open>userId\<close>).\<close>

record usage_row =
  dailyCount :: int
  lastResetDate :: string

text \<open>\<open>config.usageLimit?.maxMessagesPerUser || 100\<close>: a missing or zero maximum reads as 100.\<close>

definition maxPerDay :: "config \<Rightarrow> int" where
  "maxPerDay cfg =
     (case usageLimit cfg of
        None \<Rightarrow> 100
      | Some u \<Rightarrow> if maxMessagesPerUser u = 0 then 100 else maxMessagesPerUser u)"

text \<open>
  \<open>today\<close> is the date string \<open>new Date().toISOString().split('T')[0]\<close> read at the
  call. The result is the answer and the usage table after the call.
\<close>

definition checkUsageLimit ::
  "config \<Rightarrow> (string \<rightharpoonup> usage_row) \<Rightarrow> string \<Rightarrow> string \<Rightarrow> bool \<times> (string \<rightharpoonup> usage_row)" where
  "checkUsageLimit cfg tbl uid today =
     (case db_get tbl uid of
        [] \<Rightarrow> (True, tbl)
      | row # _ \<Rightarrow>
          if lastResetDate row \<noteq> today
          then (True, snd (db_set tbl uid (\<lambda>r. r\<lparr>dailyCount := 0, lastResetDate := today\<rparr>)))
          else (dailyCount row < maxPerDay cfg, tbl))"

definition updateUsageCount ::
  "(string \<rightharpoonup> usage_row) \<Rightarrow> string \<Rightarrow> string \<Rightarrow> (string \<rightharpoonup> usage_row)" where
  "updateUsageCount tbl uid today =
     (case db_get tbl uid of
        [] \<Rightarrow> db_create tbl uid \<lparr>dailyCount = 1, lastResetDate = today\<rparr>
      | row # _ \<Rightarrow>
          if lastResetDate row \<noteq> today
          then snd (db_set tbl uid (\<lambda>r. r\<lparr>dailyCount := 1, lastResetDate := today\<rparr>))
          else snd (db_set tbl uid (\<lambda>r. r\<lparr>dailyCount := dailyCount row + 1\<rparr>)))"

section \<open>Trigger gate and middleware\<close>

record session =
  userId :: string
  selfId :: string
  channelId :: string
  content' :: string

definition shouldIgnoreMessage :: "session \<Rightarrow> config \<Rightarrow> bool" where
  "shouldIgnoreMessage s cfg =
     (if userId s = selfId s then True
      else let isPrivate = (channelId s = userId s) in
        if isPrivate \<and> \<not> triggerPrivate cfg then True
        else if \<not> isPrivate \<and> \<not> triggerGroup cfg then True
        else False)"

text \<open>
  The white space and line terminators \<open>String.prototype.trim\<close> removes, each as its
  UTF-8 bytes: U+0009 to U+000D, U+0020, U+00A0, U+1680, U+2000 to U+200A, U+2028, U+2029,
  U+202F, U+205F, U+3000 and U+FEFF.
\<close>

definition whiteSpace :: "string list" where
  "whiteSpace =
     [[CHR 0x09], [CHR 0x0A], [CHR 0x0B], [CHR 0x0C], [CHR 0x0D], [CHR 0x20],
      [CHR 0xC2, CHR 0xA0],
      [CHR 0xE1, CHR 0x9A, CHR 0x80],
      [CHR 0xE2, CHR 0x80, CHR 0x80], [CHR 0xE2, CHR 0x80, CHR 0x81],
      [CHR 0xE2, CHR 0x80, CHR 0x82], [CHR 0xE2, CHR 0x80, CHR 0x83],
      [CHR 0xE2, CHR 0x80, CHR 0x84], [CHR 0xE2, CHR 0x80, CHR 0x85],
      [CHR 0xE2, CHR 0x80, CHR 0x86], [CHR 0xE2, CHR 0x80, CHR 0x87],
      [CHR 0xE2, CHR 0x80, CHR 0x88], [CHR 0xE2, CHR 0x80, CHR 0x89],
      [CHR 0xE2, CHR 0x80, CHR 0x8A],
      [CHR 0xE2, CHR 0x80, CHR 0xA8], [CHR 0xE2, CHR 0x80, CHR 0xA9],
      [CHR 0xE2, CHR 0x80, CHR 0xAF],
      [CHR 0xE2, CHR 0x81, CHR 0x9F],
      [CHR 0xE3, CHR 0x80, CHR 0x80],
      [CHR 0xEF, CHR 0xBB, CHR 0xBF]]"

text \<open>Removes from the front of \<open>s\<close> every leading occurrence of one of the strings \<open>ws\<close>.\<close>

function stripStart :: "string list \<Rightarrow> string \<Rightarrow> string" where
  "stripStart ws s =
     (case find (\<lambda>w. w \<noteq> [] \<and> prefix w s) ws of
        None \<Rightarrow> s
      | Some w \<Rightarrow> stripStart ws (drop (length w) s))"
  by pat_completeness auto
termination
  by (relation "measure (\<lambda>(ws, s). length s)") (auto simp: find_Some_iff prefix_def)

declare stripStart.simps [simp del]

text \<open>
  \<open>String.prototype.trim\<close>: the white space is removed from the front, and from the
  end by the same function on the reversed bytes.
\<close>

definition trim :: "string \<Rightarrow> string" where
  "trim s = rev (stripStart (map rev whiteSpace) (rev (stripStart whiteSpace s)))"

text \<open>The configured prefix when it is truthy (defined and not empty), else the empty string.\<close>

definition prefixOf :: "config \<Rightarrow> string" where
  "prefixOf cfg = (case triggerPrefix cfg of None \<Rightarrow> [] | Some p \<Rightarrow> p)"

text \<open>The content the model is given: the prefix, when there is one, is cut off and the rest trimmed.\<close>

definition strippedContent :: "config \<Rightarrow> session \<Rightarrow> string" where
  "strippedContent cfg s =
     (if prefixOf cfg \<noteq> []
      then trim (drop (length (prefixOf cfg)) (content' s))
      else content' s)"

text \<open>
  The checks the middleware makes on a message no earlier handler has taken, before the
  usage limit. \<open>sample\<close> is \<open>Math.random() * 100\<close>. The result is the content handed
  on, \<open>None\<close> when the middleware returns without answering.
\<close>

definition triggerGate :: "config \<Rightarrow> session \<Rightarrow> real \<Rightarrow> string option" where
  "triggerGate cfg s sample =
     (if shouldIgnoreMessage s cfg then None
      else if prefixOf cfg \<noteq> [] \<and> \<not> prefix (prefixOf cfg) (content' s) then None
      else if strippedContent cfg s = [] then None
      else if triggerRatio cfg < 100 \<and> sample > triggerRatio cfg then None
      else Some (strippedContent cfg s))"

definition limitReachedMessage :: string where
  "limitReachedMessage =
     [CHR 0xE4, CHR 0xBB, CHR 0x8A, CHR 0xE6, CHR 0x97, CHR 0xA5, CHR 0xE5, CHR 0xAF, CHR 0xB9,
      CHR 0xE8, CHR 0xAF, CHR 0x9D, CHR 0xE6, CHR 0xAC, CHR 0xA1, CHR 0xE6, CHR 0x95, CHR 0xB0,
      CHR 0xE5, CHR 0xB7, CHR 0xB2, CHR 0xE8, CHR 0xBE, CHR 0xBE, CHR 0xE4, CHR 0xB8, CHR 0x8A,
      CHR 0xE9, CHR 0x99, CHR 0x90, CHR 0xEF, CHR 0xBC, CHR 0x8C, CHR 0xE8, CHR 0xAF, CHR 0xB7,
      CHR 0xE6, CHR 0x98, CHR 0x8E, CHR 0xE5, CHR 0xA4, CHR 0xA9, CHR 0xE5, CHR 0x86, CHR 0x8D,
      CHR 0xE6, CHR 0x9D, CHR 0xA5]"

definition thinkingMessage :: string where
  "thinkingMessage =
     [CHR 0xE6, CHR 0xAD, CHR 0xA3, CHR 0xE5, CHR 0x9C, CHR 0xA8, CHR 0xE6, CHR 0x80, CHR 0x9D,
      CHR 0xE8, CHR 0x80, CHR 0x83, CHR 0xE4, CHR 0xB8, CHR 0xAD] @ ''...''"

text \<open>
  What the middleware acts on: both tables, the messages sent to the user so far and
  the \<open>_handled\<close> mark of the session.
\<close>

record world =
  contexts :: "string \<rightharpoonup> context_row"
  usage :: "string \<rightharpoonup> usage_row"
  sent :: "string list"
  handledMark :: bool

text \<open>The dates read by \<open>checkUsageLimit\<close> and \<open>updateUsageCount\<close> and the time of the save.\<close>

record clock =
  checkDate :: string
  updateDate :: string
  saveTime :: int

definition usageEnabled :: "config \<Rightarrow> bool" where
  "usageEnabled cfg = (case usageLimit cfg of None \<Rightarrow> False | Some u \<Rightarrow> enabled u)"

definition middleware ::
  "config \<Rightarrow> session \<Rightarrow> bool \<Rightarrow> real \<Rightarrow> clock \<Rightarrow> string + string \<Rightarrow> world \<Rightarrow> world option" where
  "middleware cfg s handled sample clk outcome w =
     (case (if handled then None else triggerGate cfg s sample) of
        None \<Rightarrow> Some w
      | Some c \<Rightarrow>
          (let (allowed, usage1) =
                 (if usageEnabled cfg
                  then checkUsageLimit cfg (usage w) (userId s) (checkDate clk)
                  else (True, usage w))
           in if usageEnabled cfg \<and> \<not> allowed
              then Some (w\<lparr>usage := usage1, sent := sent w @ [limitReachedMessage],
                           handledMark := True\<rparr>)
              else
                (let sent1 = (if showThinkingMessage cfg then sent w @ [thinkingMessage]
                              else sent w)
                 in case messageHandler cfg (contexts w) (userId s) c (saveTime clk) outcome of
                      None \<Rightarrow> None
                    | Some (reply, contexts1) \<Rightarrow>
                        if reply = []
                        then Some (w\<lparr>contexts := contexts1, usage := usage1, sent := sent1\<rparr>)
                        else Some (w\<lparr>contexts := contexts1,
                                     usage := (if usageEnabled cfg
                                               then updateUsageCount usage1 (userId s) (updateDate clk)
                                               else usage1),
                                     sent := sent1 @ [reply],
                                     handledMark := True\<rparr>))))"

section \<open>Anthropic adapter: message format\<close>

record claude_request =
  systemMessage :: string
  messages :: "turn list"

definition claudeFormatMessages :: "turn list \<Rightarrow> claude_request" where
  "claudeFormatMessages koishiMessages =
     \<lparr>systemMessage =
        (case find (\<lambda>msg. role msg = ''system'') koishiMessages of
           None \<Rightarrow> [] | Some msg \<Rightarrow> content msg),
      messages =
        map (\<lambda>msg. \<lparr>role = (if role msg = ''assistant'' then ''assistant'' else ''user''),
                     content = content msg\<rparr>)
            (filter (\<lambda>msg. role msg \<noteq> ''system'') koishiMessages)\<rparr>"

section \<open>Gemini adapter\<close>

record part =
  text' :: string

record gemini_message =
  role' :: string
  parts :: "part list"

definition systemInstructionPrefix :: string where
  "systemInstructionPrefix =
     [CHR 0xE7, CHR 0xB3, CHR 0xBB, CHR 0xE7, CHR 0xBB, CHR 0x9F, CHR 0xE6, CHR 0x8C, CHR 0x87,
      CHR 0xE4, CHR 0xBB, CHR 0xA4] @ '': ''"

definition modelAcknowledgment :: string where
  "modelAcknowledgment =
     [CHR 0xE6, CHR 0x88, CHR 0x91, CHR 0xE6, CHR 0x98, CHR 0x8E, CHR 0xE7, CHR 0x99, CHR 0xBD,
      CHR 0xE4, CHR 0xBA, CHR 0x86, CHR 0xEF, CHR 0xBC, CHR 0x8C, CHR 0xE6, CHR 0x88, CHR 0x91,
      CHR 0xE4, CHR 0xBC, CHR 0x9A, CHR 0xE6, CHR 0x8C, CHR 0x89, CHR 0xE7, CHR 0x85, CHR 0xA7,
      CHR 0xE6, CHR 0x8C, CHR 0x87, CHR 0xE7, CHR 0xA4, CHR 0xBA, CHR 0xE8, CHR 0xA1, CHR 0x8C,
      CHR 0xE5, CHR 0x8A, CHR 0xA8, CHR 0xE3, CHR 0x80, CHR 0x82, CHR 0xE6, CHR 0x9C, CHR 0x89,
      CHR 0xE4, CHR 0xBB, CHR 0x80, CHR 0xE4, CHR 0xB9, CHR 0x88, CHR 0xE5, CHR 0x8F, CHR 0xAF,
      CHR 0xE4, CHR 0xBB, CHR 0xA5, CHR 0xE5, CHR 0xB8, CHR 0xAE, CHR 0xE5, CHR 0x8A, CHR 0xA9,
      CHR 0xE4, CHR 0xBD, CHR 0xA0, CHR 0xE7, CHR 0x9A, CHR 0x84, CHR 0xE5, CHR 0x90, CHR 0x97,
      CHR 0xEF, CHR 0xBC, CHR 0x9F]"

definition fillerGreeting :: string where
  "fillerGreeting = [CHR 0xE4, CHR 0xBD, CHR 0xA0, CHR 0xE5, CHR 0xA5, CHR 0xBD]"

definition geminiFormatMessages :: "turn list \<Rightarrow> gemini_message list" where
  "geminiFormatMessages koishiMessages =
     (let systemMessage =
            (case find (\<lambda>msg. role msg = ''system'') koishiMessages of
               None \<Rightarrow> [] | Some msg \<Rightarrow> content msg);
          geminiMessages =
            (if systemMessage \<noteq> []
             then [\<lparr>role' = ''user'', parts = [\<lparr>text' = systemInstructionPrefix @ systemMessage\<rparr>]\<rparr>,
                   \<lparr>role' = ''model'', parts = [\<lparr>text' = modelAcknowledgment\<rparr>]\<rparr>]
             else [])
            @ map (\<lambda>msg. \<lparr>role' = (if role msg = ''user'' then ''user'' else ''model''),
                           parts = [\<lparr>text' = content msg\<rparr>]\<rparr>)
                  (filter (\<lambda>msg. role msg \<noteq> ''system'') koishiMessages)
      in case geminiMessages of
           [] \<Rightarrow> [\<lparr>role' = ''user'', parts = [\<lparr>text' = fillerGreeting\<rparr>]\<rparr>]
         | m # rest \<Rightarrow>
             if role' m \<noteq> ''user''
             then \<lparr>role' = ''user'', parts = [\<lparr>text' = fillerGreeting\<rparr>]\<rparr> # m # rest
             else m # rest)"

text \<open>
  The provider's payload is any JSON value. A JavaScript value read from it is a
  \<open>json option\<close>, \<open>None\<close> for \<open>undefined\<close>.
\<close>

datatype json =
  JNull
| JBool bool
| JNum real
| JStr string
| JArr "json list"
| JObj "(string \<times> json) list"

datatype js_error =
  AbortError
| Error string
| TypeError string

definition truthy :: "json option \<Rightarrow> bool" where
  "truthy v =
     (case v of
        None \<Rightarrow> False
      | Some JNull \<Rightarrow> False
      | Some (JBool b) \<Rightarrow> b
      | Some (JNum x) \<Rightarrow> x \<noteq> 0
      | Some (JStr s) \<Rightarrow> s \<noteq> []
      | Some (JArr _) \<Rightarrow> True
      | Some (JObj _) \<Rightarrow> True)"

text \<open>
  \<open>v.name\<close> for the property names the adapter reads, none of which a string, an
  array, a number or a boolean has: reading a property of \<open>null\<close> or \<open>undefined\<close>
  throws a \<open>TypeError\<close>.
\<close>

definition getProp :: "json option \<Rightarrow> string \<Rightarrow> js_error + json option" where
  "getProp v name =
     (case v of
        None \<Rightarrow> Inl (TypeError name)
      | Some JNull \<Rightarrow> Inl (TypeError name)
      | Some (JObj kvs) \<Rightarrow> Inr (map_of kvs name)
      | Some _ \<Rightarrow> Inr None)"

text \<open>\<open>v[0]\<close>: the first element of an array, the first character of a string.\<close>

definition getFirst :: "json option \<Rightarrow> js_error + json option" where
  "getFirst v =
     (case v of
        None \<Rightarrow> Inl (TypeError ''0'')
      | Some JNull \<Rightarrow> Inl (TypeError ''0'')
      | Some (JArr xs) \<Rightarrow> Inr (case xs of [] \<Rightarrow> None | x # _ \<Rightarrow> Some x)
      | Some (JStr s) \<Rightarrow> Inr (case s of [] \<Rightarrow> None | c # _ \<Rightarrow> Some (JStr [c]))
      | Some (JObj kvs) \<Rightarrow> Inr (map_of kvs ''0'')
      | Some _ \<Rightarrow> Inr None)"

definition bind_e :: "'e + 'a \<Rightarrow> ('a \<Rightarrow> 'e + 'b) \<Rightarrow> 'e + 'b" where
  "bind_e m f = (case m of Inl e \<Rightarrow> Inl e | Inr a \<Rightarrow> f a)"

definition invalidResponseMessage :: string where
  "invalidResponseMessage =
     [CHR 0xE6, CHR 0x94, CHR 0xB6, CHR 0xE5, CHR 0x88, CHR 0xB0, CHR 0xE6, CHR 0x97, CHR 0xA0,
      CHR 0xE6, CHR 0x95, CHR 0x88, CHR 0xE7, CHR 0x9A, CHR 0x84] @ ''API''
     @ [CHR 0xE5, CHR 0x93, CHR 0x8D, CHR 0xE5, CHR 0xBA, CHR 0x94]"

definition safetyNotice :: string where
  "safetyNotice =
     [CHR 0xE6, CHR 0x8A, CHR 0xB1, CHR 0xE6, CHR 0xAD, CHR 0x89, CHR 0xEF, CHR 0xBC, CHR 0x8C,
      CHR 0xE6, CHR 0x82, CHR 0xA8, CHR 0xE7, CHR 0x9A, CHR 0x84, CHR 0xE8, CHR 0xAF, CHR 0xB7,
      CHR 0xE6, CHR 0xB1, CHR 0x82, CHR 0xE8, CHR 0xA7, CHR 0xA6, CHR 0xE5, CHR 0x8F, CHR 0x91,
      CHR 0xE4, CHR 0xBA, CHR 0x86, CHR 0xE5, CHR 0x86, CHR 0x85, CHR 0xE5, CHR 0xAE, CHR 0xB9,
      CHR 0xE5, CHR 0xAE, CHR 0x89, CHR 0xE5, CHR 0x85, CHR 0xA8, CHR 0xE7, CHR 0xAD, CHR 0x96,
      CHR 0xE7, CHR 0x95, CHR 0xA5, CHR 0xEF, CHR 0xBC, CHR 0x8C, CHR 0xE6, CHR 0x88, CHR 0x91,
      CHR 0xE6, CHR 0x97, CHR 0xA0, CHR 0xE6, CHR 0xB3, CHR 0x95, CHR 0xE6, CHR 0x8F, CHR 0x90,
      CHR 0xE4, CHR 0xBE, CHR 0x9B, CHR 0xE7, CHR 0x9B, CHR 0xB8, CHR 0xE5, CHR 0x85, CHR 0xB3,
      CHR 0xE5, CHR 0x86, CHR 0x85, CHR 0xE5, CHR 0xAE, CHR 0xB9, CHR 0xE3, CHR 0x80, CHR 0x82]"

text \<open>
  \<open>generateResponse\<close> from \<open>const data = await response.json()\<close> to its
  \<open>return\<close>: the shape check, the check of the finish reason, and the text of the
  first part, trimmed.
\<close>

definition geminiReadData :: "json \<Rightarrow> js_error + string" where
  "geminiReadData data =
     bind_e (getProp (Some data) ''candidates'') (\<lambda>candidates.
       if \<not> truthy candidates then Inl (Error invalidResponseMessage)
       else bind_e (getFirst candidates) (\<lambda>first.
         if \<not> truthy first then Inl (Error invalidResponseMessage)
         else bind_e (getProp first ''content'') (\<lambda>cont.
           if \<not> truthy cont then Inl (Error invalidResponseMessage)
           else bind_e (getProp cont ''parts'') (\<lambda>ps.
             if \<not> truthy ps then Inl (Error invalidResponseMessage)
             else bind_e (getProp first ''finishReason'') (\<lambda>finishReason.
               if finishReason = Some (JStr ''SAFETY'') then Inr safetyNotice
               else bind_e (getFirst ps) (\<lambda>p.
                 bind_e (getProp p ''text'') (\<lambda>t.
                   case t of
                     Some (JStr s) \<Rightarrow> Inr (trim s)
                   | _ \<Rightarrow> Inl (TypeError ''trim''))))))))"

text \<open>\<open>String.prototype.includes\<close>.\<close>

fun includes' :: "string \<Rightarrow> string \<Rightarrow> bool" where
  "includes' [] sub = (sub = [])"
| "includes' (c # cs) sub = (prefix sub (c # cs) \<or> includes' cs sub)"

definition requestTimeoutMessage :: string where
  "requestTimeoutMessage =
     [CHR 0xE8, CHR 0xAF, CHR 0xB7, CHR 0xE6, CHR 0xB1, CHR 0x82, CHR 0xE8, CHR 0xB6, CHR 0x85,
      CHR 0xE6, CHR 0x97, CHR 0xB6, CHR 0xEF, CHR 0xBC, CHR 0x8C, CHR 0xE8, CHR 0xAF, CHR 0xB7,
      CHR 0xE7, CHR 0xA8, CHR 0x8D, CHR 0xE5, CHR 0x90, CHR 0x8E, CHR 0xE5, CHR 0x86, CHR 0x8D,
      CHR 0xE8, CHR 0xAF, CHR 0x95]"

definition rateLimitedMessage :: string where
  "rateLimitedMessage =
     [CHR 0xE8, CHR 0xAF, CHR 0xB7, CHR 0xE6, CHR 0xB1, CHR 0x82, CHR 0xE8, CHR 0xBF, CHR 0x87,
      CHR 0xE4, CHR 0xBA, CHR 0x8E, CHR 0xE9, CHR 0xA2, CHR 0x91, CHR 0xE7, CHR 0xB9, CHR 0x81,
      CHR 0xEF, CHR 0xBC, CHR 0x8C, CHR 0xE8, CHR 0xAF, CHR 0xB7, CHR 0xE7, CHR 0xA8, CHR 0x8D,
      CHR 0xE5, CHR 0x90, CHR 0x8E, CHR 0xE5, CHR 0x86, CHR 0x8D, CHR 0xE8, CHR 0xAF, CHR 0x95]"

definition invalidKeyMessage :: string where
  "invalidKeyMessage =
     ''API'' @ [CHR 0xE5, CHR 0xAF, CHR 0x86, CHR 0xE9, CHR 0x92, CHR 0xA5, CHR 0xE6, CHR 0x97,
                CHR 0xA0, CHR 0xE6, CHR 0x95, CHR 0x88]"

definition quotaMessage :: string where
  "quotaMessage =
     ''API'' @ [CHR 0xE9, CHR 0x85, CHR 0x8D, CHR 0xE9, CHR 0xA2, CHR 0x9D, CHR 0xE5, CHR 0xB7,
                CHR 0xB2, CHR 0xE7, CHR 0x94, CHR 0xA8, CHR 0xE5, CHR 0xB0, CHR 0xBD]"

text \<open>The message of an error; an abort carries node-fetch's.\<close>

definition errorMessage :: "js_error \<Rightarrow> string" where
  "errorMessage e =
     (case e of
        AbortError \<Rightarrow> ''The user aborted a request.''
      | Error m \<Rightarrow> m
      | TypeError m \<Rightarrow> m)"

text \<open>The \<open>catch\<close> block of Gemini's \<open>generateResponse\<close>: the error it throws.\<close>

definition geminiCatch :: "js_error \<Rightarrow> js_error" where
  "geminiCatch e =
     (if e = AbortError then Error requestTimeoutMessage
      else if includes' (errorMessage e) ''429'' then Error rateLimitedMessage
      else if includes' (errorMessage e) ''400'' \<and> includes' (errorMessage e) ''Invalid API key''
        then Error invalidKeyMessage
      else if includes' (errorMessage e) ''quota'' then Error quotaMessage
      else e)"

text \<open>
  How the request ended: \<open>fetch\<close> rejected (an abort or a network error), the response
  was not \<open>ok\<close> (with the message line 125 builds from status and body), or it was
  \<open>ok\<close> with the parsed body.
\<close>

datatype fetch_result =
  FetchRejected js_error
| HttpFailure string
| HttpOk json

definition geminiGenerateResponse :: "fetch_result \<Rightarrow> js_error + string" where
  "geminiGenerateResponse r =
     (case (case r of
              FetchRejected e \<Rightarrow> Inl e
            | HttpFailure m \<Rightarrow> Inl (Error m)
            | HttpOk data \<Rightarrow> geminiReadData data) of
        Inl e \<Rightarrow> Inl (geminiCatch e)
      | Inr reply \<Rightarrow> Inr reply)"

section \<open>Deadlines\<close>

datatype adapter = OpenAIAdapter | ClaudeAdapter | GeminiAdapter

text \<open>
  \<open>const timeout = 60000\<close> in each adapter's \<open>generateResponse\<close>; the adapter holds
  the configuration as \<open>this.config\<close>.
\<close>

definition adapterTimeout :: "adapter \<Rightarrow> config \<Rightarrow> int" where
  "adapterTimeout a cfg =
     (case a of OpenAIAdapter \<Rightarrow> 60000 | ClaudeAdapter \<Rightarrow> 60000 | GeminiAdapter \<Rightarrow> 60000)"

text \<open>\<open>(config.responseTimeout || 60) * 1000\<close> in the message handler.\<close>

definition handlerTimeout :: "config \<Rightarrow> int" where
  "handlerTimeout cfg = (if responseTimeout cfg = 0 then 60 else responseTimeout cfg) * 1000"

text \<open>
  A provider as the adapter sees it, in milliseconds after the call: when \<open>fetch\<close>
  settles by itself (\<open>None\<close>: never), and whether the adapter's timer
  \<open>setTimeout(() => controller.abort(), timeout)\<close> ends the request first. The timer
  is cleared once \<open>fetch\<close> has settled.
\<close>

definition abortsAt :: "adapter \<Rightarrow> config \<Rightarrow> int option \<Rightarrow> int option" where
  "abortsAt a cfg fetchSettlesAt =
     (case fetchSettlesAt of
        None \<Rightarrow> Some (adapterTimeout a cfg)
      | Some t \<Rightarrow> if t < adapterTimeout a cfg then None else Some (adapterTimeout a cfg))"

section \<open>Example inputs\<close>

definition exampleConfig :: config where
  "exampleConfig =
     \<lparr>systemPrompt = ''You are a helpful assistant.'', contextSize = 1, responseTimeout = 60,
      triggerRatio = 100, triggerPrefix = None, triggerPrivate = True, triggerGroup = False,
      showThinkingMessage = False,
      usageLimit = Some \<lparr>enabled = True, maxMessagesPerUser = 3\<rparr>\<rparr>"

definition exampleContexts :: "string \<rightharpoonup> context_row" where
  "exampleContexts =
     [''alice'' \<mapsto>
        \<lparr>context' = Some [\<lparr>role = ''system'', content = ''old prompt''\<rparr>,
                          \<lparr>role = ''user'', content = ''hello''\<rparr>,
                          \<lparr>role = ''assistant'', content = ''hi there''\<rparr>],
         updatedAt = 1000\<rparr>]"

definition exampleSession :: session where
  "exampleSession =
     \<lparr>userId = ''alice'', selfId = ''bot'', channelId = ''alice'', content' = ''how are you''\<rparr>"

definition exampleUsage :: "string \<rightharpoonup> usage_row" where
  "exampleUsage = [''alice'' \<mapsto> \<lparr>dailyCount = 2, lastResetDate = ''2024-05-01''\<rparr>]"

definition exampleWorld :: world where
  "exampleWorld =
     \<lparr>contexts = exampleContexts, usage = exampleUsage, sent = [], handledMark = False\<rparr>"

definition exampleClock :: clock where
  "exampleClock =
     \<lparr>checkDate = ''2024-05-01'', updateDate = ''2024-05-01'', saveTime = 2000\<rparr>"

text \<open>
  A configuration with the prefix \<open>!\<close>, and two messages that start with it: one with
  text between white space, one with nothing but an ideographic space (U+3000) after it.
\<close>

definition prefixedConfig :: config where
  "prefixedConfig = exampleConfig\<lparr>triggerPrefix := Some ''!''\<rparr>"

definition paddedSession :: session where
  "paddedSession =
     \<lparr>userId = ''alice'', selfId = ''bot'', channelId = ''alice'',
      content' = ''! hi'' @ [CHR 0xE3, CHR 0x80, CHR 0x80, CHR 0x09]\<rparr>"

definition blankSession :: session where
  "blankSession =
     \<lparr>userId = ''alice'', selfId = ''bot'', channelId = ''alice'',
      content' = ''!'' @ [CHR 0xE3, CHR 0x80, CHR 0x80]\<rparr>"

text \<open>
  Two payloads whose first candidate carries the finish reason \<open>SAFETY\<close>: one with a
  content that has an empty list of parts, one with no content at all.
\<close>

definition blockedWithContent :: json where
  "blockedWithContent =
     JObj [(''candidates'',
            JArr [JObj [(''content'', JObj [(''parts'', JArr []), (''role'', JStr ''model'')]),
                        (''finishReason'', JStr ''SAFETY'')]])]"

definition blockedWithoutContent :: json where
  "blockedWithoutContent =
     JObj [(''candidates'', JArr [JObj [(''finishReason'', JStr ''SAFETY''), (''index'', JNum 0)]])]"

chapter \<open>Properties\<close>

section \<open>Lemmas on the context cap\<close>

lemma limitContext_done: "real (length xs) \<le> n * 2 + 1 \<Longrightarrow> limitContext n xs = Some xs"
  by (subst limitContext.simps) simp

lemma limitContext_step:
  "real (length xs) > n * 2 + 1 \<Longrightarrow> limitContext n xs = limitContext n (splice12 xs)"
  by (subst limitContext.simps) simp

lemma splice12_shorter: "2 \<le> length xs \<Longrightarrow> length (splice12 xs) < length xs"
  by (cases xs) (auto simp: splice12_def)

lemma limitContext_returns: "0 \<le> n \<Longrightarrow> \<exists>ys. limitContext n xs = Some ys"
proof (induction "length xs" arbitrary: xs rule: less_induct)
  case less
  show ?case
  proof (cases "real (length xs) > n * 2 + 1")
    case True
    with less.prems have "1 < real (length xs)" by linarith
    then have "2 \<le> length xs" by simp
    then have "length (splice12 xs) < length xs" by (rule splice12_shorter)
    from less.hyps [OF this less.prems] obtain ys where "limitContext n (splice12 xs) = Some ys" ..
    with True show ?thesis by (simp add: limitContext_step)
  next
    case False
    then show ?thesis by (simp add: limitContext_done)
  qed
qed

text \<open>
  Whatever the loop returns is within the cap, and not empty when the loop started on
  a list that was not: with \<open>contextSize\<close> below 0 the handler does not return.
\<close>

lemma limitContext_within_cap:
  assumes "limitContext n xs = Some ys"
  shows "real (length ys) \<le> n * 2 + 1"
proof (rule limitContext.raw_induct [where P = "\<lambda>n xs ys. real (length ys) \<le> n * 2 + 1", OF _ assms])
  fix f n xs ys
  assume "\<And>n xs ys. f n xs = Some ys \<Longrightarrow> real (length ys) \<le> n * 2 + 1"
    and "(if n * 2 + 1 < real (length xs) then f n (splice12 xs) else Some xs) = Some ys"
  then show "real (length ys) \<le> n * 2 + 1" by (auto split: if_splits)
qed

lemma splice12_nonempty: "xs \<noteq> [] \<Longrightarrow> splice12 xs \<noteq> []"
  by (cases xs) (simp_all add: splice12_def)

lemma limitContext_nonempty:
  assumes "limitContext n xs = Some ys"
  shows "xs \<noteq> [] \<longrightarrow> ys \<noteq> []"
proof (rule limitContext.raw_induct [where P = "\<lambda>n xs ys. xs \<noteq> [] \<longrightarrow> ys \<noteq> []", OF _ assms])
  fix f n xs ys
  assume "\<And>n xs ys. f n xs = Some ys \<Longrightarrow> xs \<noteq> [] \<longrightarrow> ys \<noteq> []"
    and "(if n * 2 + 1 < real (length xs) then f n (splice12 xs) else Some xs) = Some ys"
  then show "xs \<noteq> [] \<longrightarrow> ys \<noteq> []"
    by (auto split: if_splits dest: splice12_nonempty)
qed

lemma limitContext_diverges:
  assumes "n < 0" and "xs \<noteq> []"
  shows "limitContext n xs = None"
proof (rule ccontr)
  assume "limitContext n xs \<noteq> None"
  then obtain ys where ys: "limitContext n xs = Some ys" by auto
  then have "real (length ys) \<le> n * 2 + 1" by (rule limitContext_within_cap)
  with assms(1) have "real (length ys) < 1" by linarith
  then have "ys = []" by simp
  with limitContext_nonempty [OF ys] assms(2) show False by simp
qed

lemma messageHandler_diverges:
  "contextSize cfg < 0 \<Longrightarrow> messageHandler cfg tbl uid msg now outcome = None"
  by (simp add: messageHandler_def limitContext_diverges)

lemma pairsWf_even: "pairsWf xs \<Longrightarrow> even (length xs)"
  by (induction xs rule: pairsWf.induct) auto

lemma pairsWf_append: "pairsWf xs \<Longrightarrow> pairsWf ys \<Longrightarrow> pairsWf (xs @ ys)"
  by (induction xs rule: pairsWf.induct) auto

lemma pairsWf_drop: "pairsWf xs \<Longrightarrow> pairsWf (drop (2 * k) xs)"
proof (induction k arbitrary: xs)
  case 0
  then show ?case by simp
next
  case (Suc k)
  then show ?case by (cases xs rule: pairsWf.cases) auto
qed

lemma pairsWf_take: "pairsWf xs \<Longrightarrow> pairsWf (take (2 * k) xs)"
proof (induction k arbitrary: xs)
  case 0
  then show ?case by simp
next
  case (Suc k)
  then show ?case by (cases xs rule: pairsWf.cases) auto
qed

text \<open>The test of the loop when the bound is a whole number \<open>m\<close>.\<close>

lemma cap_whole: "(real_of_int m * 2 + 1 < real k) = (m * 2 + 1 < int k)"
proof -
  have "real_of_int m * 2 + 1 = real_of_int (m * 2 + 1)" by simp
  moreover have "real k = real_of_int (int k)" by simp
  ultimately show ?thesis by (simp only: of_int_less_iff)
qed

text \<open>
  With a whole number of at least one pair as the bound, the loop removes whole pairs
  from the front of the stored pairs and never reaches the new user turn.
\<close>

lemma limitContext_pairs:
  assumes "1 \<le> m" and "pairsWf body"
  shows "\<exists>k. 2 * k \<le> length body
            \<and> limitContext (real_of_int m) (s # body @ [u]) = Some (s # drop (2 * k) body @ [u])
            \<and> int (length (drop (2 * k) body)) + 2 \<le> m * 2 + 1"
  using assms(2)
proof (induction body rule: pairsWf.induct)
  case 1
  from assms(1) have "\<not> m * 2 + 1 < int (length (s # [] @ [u]))" by simp
  then have "limitContext (real_of_int m) (s # [] @ [u]) = Some (s # [] @ [u])"
    by (intro limitContext_done) (simp only: cap_whole [symmetric] not_less)
  with assms(1) show ?case by simp
next
  case (2 x)
  then show ?case by simp
next
  case (3 u0 a0 rest)
  then have wf: "pairsWf rest" by simp
  show ?case
  proof (cases "m * 2 + 1 < int (length (s # (u0 # a0 # rest) @ [u]))")
    case True
    from "3.IH" [OF wf] obtain k where k: "2 * k \<le> length rest"
      "limitContext (real_of_int m) (s # rest @ [u]) = Some (s # drop (2 * k) rest @ [u])"
      "int (length (drop (2 * k) rest)) + 2 \<le> m * 2 + 1" by blast
    from True have "real_of_int m * 2 + 1 < real (length (s # (u0 # a0 # rest) @ [u]))"
      by (simp only: cap_whole)
    then have "limitContext (real_of_int m) (s # (u0 # a0 # rest) @ [u])
            = limitContext (real_of_int m) (splice12 (s # (u0 # a0 # rest) @ [u]))"
      by (rule limitContext_step)
    also have "splice12 (s # (u0 # a0 # rest) @ [u]) = s # rest @ [u]"
      by (simp add: splice12_def)
    finally have "limitContext (real_of_int m) (s # (u0 # a0 # rest) @ [u])
                    = Some (s # drop (2 * Suc k) (u0 # a0 # rest) @ [u])"
      using k(2) by simp
    moreover have "2 * Suc k \<le> length (u0 # a0 # rest)" using k(1) by simp
    moreover have "int (length (drop (2 * Suc k) (u0 # a0 # rest))) + 2 \<le> m * 2 + 1"
      using k(3) by simp
    ultimately show ?thesis by blast
  next
    case False
    then have "\<not> real_of_int m * 2 + 1 < real (length (s # (u0 # a0 # rest) @ [u]))"
      by (simp only: cap_whole not_False_eq_True)
    then have "limitContext (real_of_int m) (s # (u0 # a0 # rest) @ [u])
                 = Some (s # (u0 # a0 # rest) @ [u])"
      by (intro limitContext_done) (simp only: not_less)
    moreover have "int (length (u0 # a0 # rest)) + 2 \<le> m * 2 + 1" using False by simp
    ultimately show ?thesis by (intro exI [of _ 0]) simp
  qed
qed

lemma getUserContext_save: "getUserContext (saveUserContext tbl uid ctx now) uid = ctx"
  by (simp add: getUserContext_def saveUserContext_def db_get_def db_set_def db_create_def
      split: option.splits)

lemma messageHandler_success:
  assumes "limitContext (contextSize cfg)
             (getUserContext tbl uid @ [\<lparr>role = ''user'', content = msg\<rparr>]) = Some trimmed"
  shows "messageHandler cfg tbl uid msg now (Inr response)
           = Some (response,
                   saveUserContext tbl uid
                     (ensureSystem cfg trimmed @ [\<lparr>role = ''assistant'', content = response\<rparr>])
                     now)"
  using assms by (simp add: messageHandler_def)

lemma exampleStored: "getUserContext exampleContexts ''alice'' =
   [\<lparr>role = ''system'', content = ''old prompt''\<rparr>,
    \<lparr>role = ''user'', content = ''hello''\<rparr>,
    \<lparr>role = ''assistant'', content = ''hi there''\<rparr>]"
  by (simp add: getUserContext_def exampleContexts_def db_get_def)

section \<open>The context cap\<close>

text \<open>
  What the handler does when \<open>contextSize\<close> is a whole number \<open>m\<close> of at least 1 and
  the stored context is empty or the system turn followed by user and assistant pairs:
  a turn whose model call succeeds returns the response and persists the system turn
  with the configured prompt, the stored pairs but the first \<open>k\<close> of them (whole pairs,
  taken from right after the system turn), the new user turn and the assistant turn.
  The persisted context has at most \<open>2 * m + 1\<close> entries, starts with the system turn
  and again consists of whole pairs after it.
\<close>

lemma whole_cap_after_turn:
  assumes "contextSize cfg = real_of_int m" and "1 \<le> m" and "ctxWf (getUserContext tbl uid)"
  shows "\<exists>k tbl'.
           messageHandler cfg tbl uid msg now (Inr response) = Some (response, tbl')
         \<and> 2 * k \<le> length (tl (getUserContext tbl uid))
         \<and> pairsWf (take (2 * k) (tl (getUserContext tbl uid)))
         \<and> getUserContext tbl' uid
             = \<lparr>role = ''system'', content = systemPrompt cfg\<rparr>
               # drop (2 * k) (tl (getUserContext tbl uid))
               @ [\<lparr>role = ''user'', content = msg\<rparr>, \<lparr>role = ''assistant'', content = response\<rparr>]
         \<and> int (length (getUserContext tbl' uid)) \<le> 2 * m + 1
         \<and> role (getUserContext tbl' uid ! 0) = ''system''
         \<and> ctxWf (getUserContext tbl' uid)"
proof -
  let ?stored = "getUserContext tbl uid"
  let ?u = "\<lparr>role = ''user'', content = msg\<rparr>"
  let ?a = "\<lparr>role = ''assistant'', content = response\<rparr>"
  let ?sys = "\<lparr>role = ''system'', content = systemPrompt cfg\<rparr>"
  have tail_wf: "pairsWf [?u, ?a]" by simp
  show ?thesis
  proof (cases ?stored)
    case Nil
    from assms(2) have "real (length ([] @ [?u])) \<le> real_of_int m * 2 + 1" by simp
    then have "limitContext (contextSize cfg) ([] @ [?u]) = Some ([] @ [?u])"
      unfolding assms(1) by (rule limitContext_done)
    with Nil have "messageHandler cfg tbl uid msg now (Inr response)
        = Some (response, saveUserContext tbl uid (ensureSystem cfg [?u] @ [?a]) now)"
      by (simp add: messageHandler_success)
    moreover have "ensureSystem cfg [?u] @ [?a] = [?sys, ?u, ?a]"
      by (simp add: ensureSystem_def)
    ultimately have run: "messageHandler cfg tbl uid msg now (Inr response)
        = Some (response, saveUserContext tbl uid [?sys, ?u, ?a] now)"
      by simp
    show ?thesis
      apply (rule exI [of _ 0])
      apply (rule exI [of _ "saveUserContext tbl uid [?sys, ?u, ?a] now"])
      using assms(2) Nil run by (simp add: getUserContext_save ctxWf_def)
  next
    case (Cons s body)
    with assms(3) have s: "role s = ''system''" and wf: "pairsWf body"
      by (simp_all add: ctxWf_def)
    from limitContext_pairs [OF assms(2) wf, of s ?u] obtain k where k:
      "2 * k \<le> length body"
      "limitContext (real_of_int m) (s # body @ [?u]) = Some (s # drop (2 * k) body @ [?u])"
      "int (length (drop (2 * k) body)) + 2 \<le> m * 2 + 1" by blast
    let ?kept = "drop (2 * k) body"
    from s have "s\<lparr>content := systemPrompt cfg\<rparr> = ?sys" by simp
    with s have sys: "ensureSystem cfg (s # ?kept @ [?u]) @ [?a] = ?sys # ?kept @ [?u, ?a]"
      by (simp add: ensureSystem_def)
    from k(2) Cons have "limitContext (contextSize cfg) (getUserContext tbl uid @ [?u])
        = Some (s # ?kept @ [?u])"
      by (simp add: assms(1))
    from messageHandler_success [OF this, of now response]
    have run: "messageHandler cfg tbl uid msg now (Inr response)
        = Some (response, saveUserContext tbl uid (?sys # ?kept @ [?u, ?a]) now)"
      by (simp only: sys)
    have kept_wf: "pairsWf (?kept @ [?u, ?a])"
      using pairsWf_drop [OF wf] tail_wf by (rule pairsWf_append)
    have "even (length ?kept)" using pairsWf_drop [OF wf] by (rule pairsWf_even)
    with k(3) have len: "int (length ?kept) + 3 \<le> 2 * m + 1"
      by presburger
    show ?thesis
      apply (rule exI [of _ k])
      apply (rule exI [of _ "saveUserContext tbl uid (?sys # ?kept @ [?u, ?a]) now"])
      using Cons run k(1) pairsWf_take [OF wf] kept_wf len
      by (simp add: getUserContext_save ctxWf_def)
  qed
qed

text \<open>
  The example turn at \<open>contextSize = 1\<close>: the stored pair is evicted and the prompt
  refreshed.
\<close>

lemma example_turn:
  "messageHandler exampleConfig exampleContexts ''alice'' ''how are you'' 2000 (Inr ''fine'')
     = Some (''fine'',
             [''alice'' \<mapsto>
                \<lparr>context' = Some [\<lparr>role = ''system'', content = ''You are a helpful assistant.''\<rparr>,
                                  \<lparr>role = ''user'', content = ''how are you''\<rparr>,
                                  \<lparr>role = ''assistant'', content = ''fine''\<rparr>],
                 updatedAt = 2000\<rparr>])"
proof -
  have "limitContext (contextSize exampleConfig)
          (getUserContext exampleContexts ''alice'' @ [\<lparr>role = ''user'', content = ''how are you''\<rparr>])
        = Some [\<lparr>role = ''system'', content = ''old prompt''\<rparr>,
                \<lparr>role = ''user'', content = ''how are you''\<rparr>]"
    by (simp add: exampleStored exampleConfig_def limitContext_step limitContext_done splice12_def)
  from messageHandler_success [OF this, of 2000 "''fine''"] show ?thesis
    by (simp add: ensureSystem_def saveUserContext_def db_set_def exampleContexts_def
        exampleConfig_def)
qed

text \<open>
  The same turn at \<open>contextSize = 1.5\<close>: the loop tests \<open>4 > 4\<close> and removes nothing, and
  five entries are persisted, more than \<open>2 * 1.5 + 1\<close>.
\<close>

lemma fractional_turn:
  "messageHandler (exampleConfig\<lparr>contextSize := 3 / 2\<rparr>) exampleContexts ''alice''
       ''how are you'' 2000 (Inr ''fine'')
     = Some (''fine'',
             [''alice'' \<mapsto>
                \<lparr>context' = Some [\<lparr>role = ''system'', content = ''You are a helpful assistant.''\<rparr>,
                                  \<lparr>role = ''user'', content = ''hello''\<rparr>,
                                  \<lparr>role = ''assistant'', content = ''hi there''\<rparr>,
                                  \<lparr>role = ''user'', content = ''how are you''\<rparr>,
                                  \<lparr>role = ''assistant'', content = ''fine''\<rparr>],
                 updatedAt = 2000\<rparr>])"
proof -
  have "limitContext (contextSize (exampleConfig\<lparr>contextSize := 3 / 2\<rparr>))
          (getUserContext exampleContexts ''alice'' @ [\<lparr>role = ''user'', content = ''how are you''\<rparr>])
        = Some [\<lparr>role = ''system'', content = ''old prompt''\<rparr>,
                \<lparr>role = ''user'', content = ''hello''\<rparr>,
                \<lparr>role = ''assistant'', content = ''hi there''\<rparr>,
                \<lparr>role = ''user'', content = ''how are you''\<rparr>]"
    by (simp add: exampleStored limitContext_done)
  from messageHandler_success [OF this, of 2000 "''fine''"] show ?thesis
    by (simp add: ensureSystem_def saveUserContext_def db_set_def exampleContexts_def
        exampleConfig_def)
qed

text \<open>
  C1. The code breaks the claim at \<open>contextSize = 0\<close>. The first turn of a new user
  persists the system turn, the user turn and the assistant turn: three entries, more
  than \<open>2 * 0 + 1\<close>. On the next turn the loop removes the stored pair and then, against
  its comment that turns are deleted in pairs, the new user turn alone: what is
  persisted is the system turn and an assistant turn that has no user turn, two
  entries.
\<close>

theorem context_cap_broken_at_zero:
  "messageHandler (exampleConfig\<lparr>contextSize := 0\<rparr>) Map.empty ''alice'' ''hello'' 1000 (Inr ''hi there'')
     = Some (''hi there'',
             [''alice'' \<mapsto>
                \<lparr>context' = Some [\<lparr>role = ''system'', content = ''You are a helpful assistant.''\<rparr>,
                                  \<lparr>role = ''user'', content = ''hello''\<rparr>,
                                  \<lparr>role = ''assistant'', content = ''hi there''\<rparr>],
                 updatedAt = 1000\<rparr>])
   \<and> \<not> real (length [\<lparr>role = ''system'', content = ''You are a helpful assistant.''\<rparr>,
                       \<lparr>role = ''user'', content = ''hello''\<rparr>,
                       \<lparr>role = ''assistant'', content = ''hi there''\<rparr>])
         \<le> 2 * contextSize (exampleConfig\<lparr>contextSize := 0\<rparr>) + 1
   \<and> messageHandler (exampleConfig\<lparr>contextSize := 0\<rparr>)
         [''alice'' \<mapsto>
            \<lparr>context' = Some [\<lparr>role = ''system'', content = ''You are a helpful assistant.''\<rparr>,
                              \<lparr>role = ''user'', content = ''hello''\<rparr>,
                              \<lparr>role = ''assistant'', content = ''hi there''\<rparr>],
             updatedAt = 1000\<rparr>]
         ''alice'' ''how are you'' 2000 (Inr ''fine'')
     = Some (''fine'',
             [''alice'' \<mapsto>
                \<lparr>context' = Some [\<lparr>role = ''system'', content = ''You are a helpful assistant.''\<rparr>,
                                  \<lparr>role = ''assistant'', content = ''fine''\<rparr>],
                 updatedAt = 2000\<rparr>])
   \<and> \<not> real (length [\<lparr>role = ''system'', content = ''You are a helpful assistant.''\<rparr>,
                       \<lparr>role = ''assistant'', content = ''fine''\<rparr>])
         \<le> 2 * contextSize (exampleConfig\<lparr>contextSize := 0\<rparr>) + 1"
proof -
  let ?cfg = "exampleConfig\<lparr>contextSize := 0\<rparr>"
  let ?sys = "\<lparr>role = ''system'', content = ''You are a helpful assistant.''\<rparr>"
  let ?u1 = "\<lparr>role = ''user'', content = ''hello''\<rparr>"
  let ?a1 = "\<lparr>role = ''assistant'', content = ''hi there''\<rparr>"
  let ?u2 = "\<lparr>role = ''user'', content = ''how are you''\<rparr>"
  let ?tbl1 = "[''alice'' \<mapsto> \<lparr>context' = Some [?sys, ?u1, ?a1], updatedAt = 1000\<rparr>]"
  have "limitContext (contextSize ?cfg) (getUserContext Map.empty ''alice'' @ [?u1]) = Some [?u1]"
    by (simp add: getUserContext_def db_get_def limitContext_done)
  from messageHandler_success [OF this, of 1000 "''hi there''"]
  have first: "messageHandler ?cfg Map.empty ''alice'' ''hello'' 1000 (Inr ''hi there'')
      = Some (''hi there'', ?tbl1)"
    by (simp add: ensureSystem_def saveUserContext_def db_set_def db_create_def exampleConfig_def)
  have stored: "getUserContext ?tbl1 ''alice'' = [?sys, ?u1, ?a1]"
    by (simp add: getUserContext_def db_get_def)
  have "limitContext (contextSize ?cfg) (getUserContext ?tbl1 ''alice'' @ [?u2]) = Some [?sys]"
    by (simp add: stored limitContext_step limitContext_done splice12_def)
  from messageHandler_success [OF this, of 2000 "''fine''"]
  have second: "messageHandler ?cfg ?tbl1 ''alice'' ''how are you'' 2000 (Inr ''fine'')
      = Some (''fine'',
              [''alice'' \<mapsto>
                 \<lparr>context' = Some [?sys, \<lparr>role = ''assistant'', content = ''fine''\<rparr>],
                  updatedAt = 2000\<rparr>])"
    by (simp add: ensureSystem_def saveUserContext_def db_set_def exampleConfig_def)
  show ?thesis by (intro conjI first second) simp_all
qed

text \<open>Read off the theorem: neither persisted context is within the cap of one entry.\<close>

theorem context_cap_broken_at_zero_witness:
  "contextSize (exampleConfig\<lparr>contextSize := 0\<rparr>) = 0
   \<and> messageHandler (exampleConfig\<lparr>contextSize := 0\<rparr>) Map.empty ''alice'' ''hello'' 1000 (Inr ''hi there'')
       \<noteq> None"
  using context_cap_broken_at_zero by simp

section \<open>A failed model call\<close>

lemma apologyPrefix_nonempty: "apologyPrefix \<noteq> []"
  by (simp add: apologyPrefix_def)

lemma messageHandler_failure:
  assumes "0 \<le> contextSize cfg"
  shows "messageHandler cfg tbl uid msg now (Inl err) = Some (apologyPrefix @ err, tbl)"
proof -
  from limitContext_returns [OF assms] obtain ys where
    "limitContext (contextSize cfg)
       (getUserContext tbl uid @ [\<lparr>role = ''user'', content = msg\<rparr>]) = Some ys" ..
  then show ?thesis by (simp add: messageHandler_def)
qed

text \<open>
  C2. When the race is settled by a rejection (the adapter's error, or the timer's), the
  handler returns the apology followed by the error's message and the context table is
  the one before the call; with \<open>contextSize\<close> not negative the handler does return.
  Whenever it returns on a rejection, that is what it returns.
\<close>

theorem failed_call_keeps_context:
  "(0 \<le> contextSize cfg \<longrightarrow>
      messageHandler cfg tbl uid msg now (Inl err) = Some (apologyPrefix @ err, tbl))
   \<and> (\<forall>reply tbl'. messageHandler cfg tbl uid msg now (Inl err) = Some (reply, tbl')
         \<longrightarrow> reply = apologyPrefix @ err \<and> tbl' = tbl)"
proof -
  have "reply = apologyPrefix @ err \<and> tbl' = tbl"
    if "messageHandler cfg tbl uid msg now (Inl err) = Some (reply, tbl')" for reply tbl'
    using that by (auto simp: messageHandler_def split: option.splits)
  with messageHandler_failure [of cfg tbl uid msg now err] show ?thesis by blast
qed

text \<open>The theorem at the example, for the timer's rejection.\<close>

theorem failed_call_keeps_context_witness:
  "0 \<le> contextSize exampleConfig
   \<and> messageHandler exampleConfig exampleContexts ''alice'' ''how are you'' 2000 (Inl timeoutMessage)
       = Some (apologyPrefix @ timeoutMessage, exampleContexts)"
proof -
  have h: "0 \<le> contextSize exampleConfig" by (simp add: exampleConfig_def)
  with failed_call_keeps_context [of exampleConfig exampleContexts "''alice''" "''how are you''" 2000 timeoutMessage]
  show ?thesis by blast
qed

section \<open>Trigger gate\<close>

text \<open>Trimming at the examples: white space of one byte and of several is removed at both ends.\<close>

lemma stripStart_found:
  "find (\<lambda>w. w \<noteq> [] \<and> prefix w s) ws = Some w
     \<Longrightarrow> stripStart ws s = stripStart ws (drop (length w) s)"
  by (subst stripStart.simps) simp

lemma stripStart_done:
  "find (\<lambda>w. w \<noteq> [] \<and> prefix w s) ws = None \<Longrightarrow> stripStart ws s = s"
  by (subst stripStart.simps) simp

lemma paddedStripped: "strippedContent prefixedConfig paddedSession = ''hi''"
proof -
  have front1: "stripStart whiteSpace ('' hi'' @ [CHR 0xE3, CHR 0x80, CHR 0x80, CHR 0x09])
      = stripStart whiteSpace (''hi'' @ [CHR 0xE3, CHR 0x80, CHR 0x80, CHR 0x09])"
    by (subst stripStart_found [where w = "'' ''"]) (simp_all add: whiteSpace_def)
  have front2: "stripStart whiteSpace (''hi'' @ [CHR 0xE3, CHR 0x80, CHR 0x80, CHR 0x09])
      = ''hi'' @ [CHR 0xE3, CHR 0x80, CHR 0x80, CHR 0x09]"
    by (rule stripStart_done) (simp add: whiteSpace_def)
  have rear1: "stripStart (map rev whiteSpace) ([CHR 0x09, CHR 0x80, CHR 0x80, CHR 0xE3] @ ''ih'')
      = stripStart (map rev whiteSpace) ([CHR 0x80, CHR 0x80, CHR 0xE3] @ ''ih'')"
    by (subst stripStart_found [where w = "[CHR 0x09]"]) (simp_all add: whiteSpace_def)
  have rear2: "stripStart (map rev whiteSpace) ([CHR 0x80, CHR 0x80, CHR 0xE3] @ ''ih'')
      = stripStart (map rev whiteSpace) ''ih''"
    by (subst stripStart_found [where w = "[CHR 0x80, CHR 0x80, CHR 0xE3]"])
       (simp_all add: whiteSpace_def)
  have rear3: "stripStart (map rev whiteSpace) ''ih'' = ''ih''"
    by (rule stripStart_done) (simp add: whiteSpace_def)
  have "trim ('' hi'' @ [CHR 0xE3, CHR 0x80, CHR 0x80, CHR 0x09]) = ''hi''"
    unfolding trim_def front1 front2 using rear1 rear2 rear3 by simp
  then show ?thesis
    by (simp add: strippedContent_def prefixOf_def prefixedConfig_def paddedSession_def)
qed

lemma blankStripped: "strippedContent prefixedConfig blankSession = []"
proof -
  have front1: "stripStart whiteSpace [CHR 0xE3, CHR 0x80, CHR 0x80] = stripStart whiteSpace []"
    by (subst stripStart_found [where w = "[CHR 0xE3, CHR 0x80, CHR 0x80]"])
       (simp_all add: whiteSpace_def)
  have front2: "stripStart whiteSpace [] = []"
    by (rule stripStart_done) (simp add: whiteSpace_def)
  have rear: "stripStart (map rev whiteSpace) [] = []"
    by (rule stripStart_done) (simp add: whiteSpace_def)
  have "trim [CHR 0xE3, CHR 0x80, CHR 0x80] = []"
    unfolding trim_def front1 front2 using rear by simp
  then show ?thesis
    by (simp add: strippedContent_def prefixOf_def prefixedConfig_def blankSession_def)
qed

text \<open>
  A message with nothing but white space after the prefix is dropped, also with
  \<open>triggerRatio = 100\<close>.
\<close>

lemma blank_message_dropped: "triggerGate prefixedConfig blankSession sample = None"
  by (simp add: triggerGate_def blankStripped)

text \<open>
  C3. A message that passes the structural checks (the sender is not the bot, its kind
  of channel is enabled, it starts with the prefix when one is configured, and its
  content is not empty after the prefix is cut off and the rest trimmed) is accepted with
  \<open>triggerRatio = 100\<close> whatever the sample; with \<open>triggerRatio = 0\<close> it is rejected
  for every sample above 0, the boundary sample being set aside as in the spec.
\<close>

theorem trigger_ratio_extremes:
  assumes "userId s \<noteq> selfId s"
    and "if channelId s = userId s then triggerPrivate cfg else triggerGroup cfg"
    and "prefixOf cfg = [] \<or> prefix (prefixOf cfg) (content' s)"
    and "strippedContent cfg s \<noteq> []"
  shows "(triggerRatio cfg = 100 \<longrightarrow>
            triggerGate cfg s sample = Some (strippedContent cfg s))
       \<and> (triggerRatio cfg = 0 \<and> 0 < sample \<longrightarrow> triggerGate cfg s sample = None)"
proof -
  from assms(1,2) have "\<not> shouldIgnoreMessage s cfg"
    by (auto simp: shouldIgnoreMessage_def Let_def split: if_splits)
  with assms(3,4) show ?thesis
    by (auto simp: triggerGate_def)
qed

text \<open>
  The theorem at the message \<open>! hi\<close> followed by an ideographic space and a tab, under
  the prefix \<open>!\<close>: accepted as \<open>hi\<close> at ratio 100, rejected at ratio 0, with sample 42.
\<close>

theorem trigger_ratio_extremes_witness:
  "triggerGate prefixedConfig paddedSession 42 = Some ''hi''
   \<and> triggerGate (prefixedConfig\<lparr>triggerRatio := 0\<rparr>) paddedSession 42 = None"
proof -
  let ?cfg0 = "prefixedConfig\<lparr>triggerRatio := 0\<rparr>"
  have a: "userId paddedSession \<noteq> selfId paddedSession" by (simp add: paddedSession_def)
  have b: "if channelId paddedSession = userId paddedSession
           then triggerPrivate prefixedConfig else triggerGroup prefixedConfig"
    by (simp add: paddedSession_def prefixedConfig_def exampleConfig_def)
  have c: "prefixOf prefixedConfig = []
           \<or> prefix (prefixOf prefixedConfig) (content' paddedSession)"
    by (simp add: prefixOf_def prefixedConfig_def paddedSession_def)
  have d: "strippedContent prefixedConfig paddedSession \<noteq> []" by (simp add: paddedStripped)
  have b0: "if channelId paddedSession = userId paddedSession
            then triggerPrivate ?cfg0 else triggerGroup ?cfg0"
    using b by simp
  have c0: "prefixOf ?cfg0 = [] \<or> prefix (prefixOf ?cfg0) (content' paddedSession)"
    using c by (simp add: prefixOf_def)
  have e0: "strippedContent ?cfg0 paddedSession = strippedContent prefixedConfig paddedSession"
    by (simp add: strippedContent_def prefixOf_def)
  have d0: "strippedContent ?cfg0 paddedSession \<noteq> []"
    using d e0 by simp
  have r: "triggerRatio prefixedConfig = 100"
    by (simp add: prefixedConfig_def exampleConfig_def)
  from trigger_ratio_extremes [OF a b c d, of 42]
       trigger_ratio_extremes [OF a b0 c0 d0, of 42] r
  show ?thesis by (simp add: paddedStripped e0)
qed

text \<open>
  At the boundary the test \<open>sample > triggerRatio\<close> is strict: with \<open>triggerRatio = 0\<close>
  the sample 0 is not rejected.
\<close>

lemma trigger_ratio_boundary:
  "triggerGate (exampleConfig\<lparr>triggerRatio := 0\<rparr>) exampleSession 0 = Some ''how are you''"
  by (simp add: triggerGate_def shouldIgnoreMessage_def strippedContent_def prefixOf_def
      exampleConfig_def exampleSession_def)

section \<open>Gemini: the blocked finish reason\<close>

lemma geminiCatch_invalid: "geminiCatch (Error invalidResponseMessage) = Error invalidResponseMessage"
  by (simp add: geminiCatch_def errorMessage_def invalidResponseMessage_def)

text \<open>
  A first candidate without a truthy \<open>content\<close> fails the shape check, whatever its
  finish reason.
\<close>

lemma safety_needs_content:
  assumes "getProp (Some data) ''candidates'' = Inr cands" and "truthy cands"
    and "getFirst cands = Inr first" and "truthy first"
    and "getProp first ''content'' = Inr cont"
    and "\<not> truthy cont"
  shows "geminiGenerateResponse (HttpOk data) = Inl (Error invalidResponseMessage)"
  using assms by (simp add: geminiGenerateResponse_def geminiReadData_def bind_e_def geminiCatch_invalid)

text \<open>
  Where the check of the finish reason is reached: for a payload that passes the shape
  check (the first candidate has a truthy \<open>content\<close> with truthy \<open>parts\<close>) and whose
  first candidate carries the finish reason \<open>SAFETY\<close>, \<open>generateResponse\<close> returns the
  fixed notice.
\<close>

lemma gemini_safety_notice:
  assumes "getProp (Some data) ''candidates'' = Inr cands"
    and "getFirst cands = Inr first"
    and "getProp first ''finishReason'' = Inr (Some (JStr ''SAFETY''))"
    and "getProp first ''content'' = Inr cont" and "truthy cont"
    and "getProp cont ''parts'' = Inr ps" and "truthy ps"
  shows "geminiGenerateResponse (HttpOk data) = Inr safetyNotice"
proof -
  from assms(3) obtain kvs where first: "first = Some (JObj kvs)"
    by (auto simp: getProp_def split: option.splits json.splits)
  then have tf: "truthy first" by (simp add: truthy_def)
  from assms(2) first have tc: "truthy cands"
    by (auto simp: getFirst_def truthy_def split: option.splits json.splits list.splits)
  from assms tf tc show ?thesis
    by (simp add: geminiGenerateResponse_def geminiReadData_def bind_e_def)
qed

text \<open>So for a blocked candidate that has a content with an empty list of parts.\<close>

lemma gemini_safety_notice_example:
  "geminiGenerateResponse (HttpOk blockedWithContent) = Inr safetyNotice"
proof -
  let ?first = "JObj [(''content'', JObj [(''parts'', JArr []), (''role'', JStr ''model'')]),
                      (''finishReason'', JStr ''SAFETY'')]"
  let ?cont = "JObj [(''parts'', JArr []), (''role'', JStr ''model'')]"
  have a: "getProp (Some blockedWithContent) ''candidates'' = Inr (Some (JArr [?first]))"
    by (simp add: getProp_def blockedWithContent_def)
  have b: "getFirst (Some (JArr [?first])) = Inr (Some ?first)" by (simp add: getFirst_def)
  have c: "getProp (Some ?first) ''finishReason'' = Inr (Some (JStr ''SAFETY''))"
    by (simp add: getProp_def)
  have d: "getProp (Some ?first) ''content'' = Inr (Some ?cont)" by (simp add: getProp_def)
  have e: "truthy (Some ?cont)" by (simp add: truthy_def)
  have f: "getProp (Some ?cont) ''parts'' = Inr (Some (JArr []))" by (simp add: getProp_def)
  have g: "truthy (Some (JArr []))" by (simp add: truthy_def)
  from gemini_safety_notice [OF a b c d e f g] show ?thesis .
qed

text \<open>
  C4. The code breaks the claim for a blocked candidate without content, the payload
  \<open>{"candidates": [{"finishReason": "SAFETY", "index": 0}]}\<close>: its first candidate
  carries \<open>SAFETY\<close>, but the shape check comes before the check of the finish reason
  and throws the invalid-response error, which the \<open>catch\<close> block throws on.
\<close>

theorem gemini_safety_without_content:
  "getProp (Some blockedWithoutContent) ''candidates''
     = Inr (Some (JArr [JObj [(''finishReason'', JStr ''SAFETY''), (''index'', JNum 0)]]))
   \<and> getFirst (Some (JArr [JObj [(''finishReason'', JStr ''SAFETY''), (''index'', JNum 0)]]))
     = Inr (Some (JObj [(''finishReason'', JStr ''SAFETY''), (''index'', JNum 0)]))
   \<and> getProp (Some (JObj [(''finishReason'', JStr ''SAFETY''), (''index'', JNum 0)])) ''finishReason''
     = Inr (Some (JStr ''SAFETY''))
   \<and> geminiGenerateResponse (HttpOk blockedWithoutContent) = Inl (Error invalidResponseMessage)"
proof -
  let ?first = "JObj [(''finishReason'', JStr ''SAFETY''), (''index'', JNum 0)]"
  have a: "getProp (Some blockedWithoutContent) ''candidates'' = Inr (Some (JArr [?first]))"
    by (simp add: getProp_def blockedWithoutContent_def)
  have b: "getFirst (Some (JArr [?first])) = Inr (Some ?first)" by (simp add: getFirst_def)
  have c: "getProp (Some ?first) ''finishReason'' = Inr (Some (JStr ''SAFETY''))"
    by (simp add: getProp_def)
  have d: "getProp (Some ?first) ''content'' = Inr None" by (simp add: getProp_def)
  have "geminiGenerateResponse (HttpOk blockedWithoutContent) = Inl (Error invalidResponseMessage)"
    by (rule safety_needs_content [OF a _ b _ d]) (simp_all add: truthy_def)
  with a b c show ?thesis by simp
qed

text \<open>Read off the theorem: the call ends in an error, not in the notice.\<close>

theorem gemini_safety_without_content_witness:
  "geminiGenerateResponse (HttpOk blockedWithoutContent) \<noteq> Inr safetyNotice"
  using gemini_safety_without_content by simp

section \<open>Usage limiter\<close>

text \<open>Three uses on one date, from no record, leave a count of three for that date.\<close>

lemma three_uses:
  assumes "tbl uid = None"
  shows "updateUsageCount (updateUsageCount (updateUsageCount tbl uid today) uid today) uid today
           = tbl(uid \<mapsto> \<lparr>dailyCount = 3, lastResetDate = today\<rparr>)"
  using assms by (simp add: updateUsageCount_def db_get_def db_set_def db_create_def)

text \<open>
  C5. With \<open>maxMessagesPerUser = 3\<close> and a record of three uses dated today, the
  check answers no and leaves the table as it is; on any other date the check answers
  yes and stores a count of 0 with the new date, and the increment that follows makes
  it 1.
\<close>

theorem usage_limit_three_per_day:
  assumes "usageLimit cfg = Some u" and "maxMessagesPerUser u = 3"
    and "tbl uid = Some row" and "dailyCount row = 3" and "lastResetDate row = today"
    and "tomorrow \<noteq> today"
  shows "checkUsageLimit cfg tbl uid today = (False, tbl)
       \<and> checkUsageLimit cfg tbl uid tomorrow
           = (True, tbl(uid \<mapsto> \<lparr>dailyCount = 0, lastResetDate = tomorrow\<rparr>))
       \<and> updateUsageCount (snd (checkUsageLimit cfg tbl uid tomorrow)) uid tomorrow
           = tbl(uid \<mapsto> \<lparr>dailyCount = 1, lastResetDate = tomorrow\<rparr>)"
proof -
  from assms(1,2) have m: "maxPerDay cfg = 3" by (simp add: maxPerDay_def)
  have today: "checkUsageLimit cfg tbl uid today = (False, tbl)"
    using assms(3,4,5) m by (simp add: checkUsageLimit_def db_get_def)
  have next_day: "checkUsageLimit cfg tbl uid tomorrow
      = (True, tbl(uid \<mapsto> \<lparr>dailyCount = 0, lastResetDate = tomorrow\<rparr>))"
    using assms(3,5,6) by (cases row) (simp add: checkUsageLimit_def db_get_def db_set_def)
  have "updateUsageCount (tbl(uid \<mapsto> \<lparr>dailyCount = 0, lastResetDate = tomorrow\<rparr>)) uid tomorrow
      = tbl(uid \<mapsto> \<lparr>dailyCount = 1, lastResetDate = tomorrow\<rparr>)"
    by (simp add: updateUsageCount_def db_get_def db_set_def)
  with today next_day show ?thesis by simp
qed

text \<open>The theorem for a user with three recorded uses on 2024-05-01, checked that day and the next.\<close>

theorem usage_limit_three_per_day_witness:
  "checkUsageLimit exampleConfig
     (updateUsageCount (updateUsageCount (updateUsageCount Map.empty ''bob'' ''2024-05-01'')
        ''bob'' ''2024-05-01'') ''bob'' ''2024-05-01'') ''bob'' ''2024-05-01''
     = (False, [''bob'' \<mapsto> \<lparr>dailyCount = 3, lastResetDate = ''2024-05-01''\<rparr>])
   \<and> checkUsageLimit exampleConfig
       [''bob'' \<mapsto> \<lparr>dailyCount = 3, lastResetDate = ''2024-05-01''\<rparr>] ''bob'' ''2024-05-02''
     = (True, [''bob'' \<mapsto> \<lparr>dailyCount = 0, lastResetDate = ''2024-05-02''\<rparr>])
   \<and> updateUsageCount
         (snd (checkUsageLimit exampleConfig
                 [''bob'' \<mapsto> \<lparr>dailyCount = 3, lastResetDate = ''2024-05-01''\<rparr>]
                 ''bob'' ''2024-05-02'')) ''bob'' ''2024-05-02''
     = [''bob'' \<mapsto> \<lparr>dailyCount = 1, lastResetDate = ''2024-05-02''\<rparr>]"
proof -
  let ?row = "\<lparr>dailyCount = 3, lastResetDate = ''2024-05-01''\<rparr>"
  let ?tbl = "[''bob'' \<mapsto> ?row]"
  have a: "usageLimit exampleConfig = Some \<lparr>enabled = True, maxMessagesPerUser = 3\<rparr>"
    by (simp add: exampleConfig_def)
  have b: "maxMessagesPerUser \<lparr>enabled = True, maxMessagesPerUser = 3\<rparr> = 3" by simp
  have c: "?tbl ''bob'' = Some ?row" by simp
  have d: "dailyCount ?row = 3" and e: "lastResetDate ?row = ''2024-05-01''" by simp_all
  have f: "''2024-05-02'' \<noteq> ''2024-05-01''" by simp
  have g: "updateUsageCount (updateUsageCount (updateUsageCount Map.empty ''bob'' ''2024-05-01'')
        ''bob'' ''2024-05-01'') ''bob'' ''2024-05-01'' = ?tbl"
    by (simp add: three_uses)
  note th = usage_limit_three_per_day
         [of exampleConfig "\<lparr>enabled = True, maxMessagesPerUser = 3\<rparr>" ?tbl "''bob''" ?row
             "''2024-05-01''" "''2024-05-02''", OF a b c d e f]
  have u: "?tbl(''bob'' \<mapsto> x) = [''bob'' \<mapsto> x]" for x by simp
  from th have r1: "checkUsageLimit exampleConfig ?tbl ''bob'' ''2024-05-01'' = (False, ?tbl)"
    by (rule conjunct1)
  from th have r2: "checkUsageLimit exampleConfig ?tbl ''bob'' ''2024-05-02''
      = (True, [''bob'' \<mapsto> \<lparr>dailyCount = 0, lastResetDate = ''2024-05-02''\<rparr>])"
    unfolding u by (rule conjunct1 [OF conjunct2])
  from th have r3: "updateUsageCount (snd (checkUsageLimit exampleConfig ?tbl ''bob'' ''2024-05-02''))
        ''bob'' ''2024-05-02''
      = [''bob'' \<mapsto> \<lparr>dailyCount = 1, lastResetDate = ''2024-05-02''\<rparr>]"
    unfolding u by (rule conjunct2 [OF conjunct2])
  show ?thesis unfolding g by (intro conjI r1 r2 r3)
qed

section \<open>Message formats\<close>

text \<open>
  C6. For the system turn \<open>S\<close> and the user turn \<open>hi\<close>, Gemini's
  \<open>formatMessages\<close> gives three entries: a user turn whose text is the instruction
  prefix followed by \<open>S\<close>, the model's acknowledgment, and the user turn \<open>hi\<close>.
\<close>

theorem gemini_format_example:
  "geminiFormatMessages [\<lparr>role = ''system'', content = ''S''\<rparr>, \<lparr>role = ''user'', content = ''hi''\<rparr>]
     = [\<lparr>role' = ''user'', parts = [\<lparr>text' = systemInstructionPrefix @ ''S''\<rparr>]\<rparr>,
        \<lparr>role' = ''model'', parts = [\<lparr>text' = modelAcknowledgment\<rparr>]\<rparr>,
        \<lparr>role' = ''user'', parts = [\<lparr>text' = ''hi''\<rparr>]\<rparr>]
   \<and> includes' (systemInstructionPrefix @ ''S'') ''S''"
  by (simp add: geminiFormatMessages_def systemInstructionPrefix_def)

text \<open>Its length and its roles, read off the theorem.\<close>

theorem gemini_format_example_witness:
  "length (geminiFormatMessages
             [\<lparr>role = ''system'', content = ''S''\<rparr>, \<lparr>role = ''user'', content = ''hi''\<rparr>]) = 3
   \<and> map role' (geminiFormatMessages
                  [\<lparr>role = ''system'', content = ''S''\<rparr>, \<lparr>role = ''user'', content = ''hi''\<rparr>])
       = [''user'', ''model'', ''user'']"
  using gemini_format_example by simp

text \<open>
  C7. For the system turn \<open>S\<close>, the user turn \<open>a\<close> and the assistant turn \<open>b\<close>,
  Claude's \<open>formatMessages\<close> gives \<open>S\<close> as the system field and the two turns as
  the messages. For any input, the messages are the turns that are not system turns, in
  order and with their content, each with role \<open>assistant\<close> when it had that role and
  \<open>user\<close> otherwise; no other role occurs.
\<close>

theorem claude_format:
  "claudeFormatMessages [\<lparr>role = ''system'', content = ''S''\<rparr>, \<lparr>role = ''user'', content = ''a''\<rparr>,
                         \<lparr>role = ''assistant'', content = ''b''\<rparr>]
     = \<lparr>systemMessage = ''S'',
        messages = [\<lparr>role = ''user'', content = ''a''\<rparr>, \<lparr>role = ''assistant'', content = ''b''\<rparr>]\<rparr>
   \<and> list_all2 (\<lambda>msg out. content out = content msg
                   \<and> role out = (if role msg = ''assistant'' then ''assistant'' else ''user''))
        (filter (\<lambda>msg. role msg \<noteq> ''system'') ms) (messages (claudeFormatMessages ms))
   \<and> set (map role (messages (claudeFormatMessages ms))) \<subseteq> {''user'', ''assistant''}"
  by (auto simp: claudeFormatMessages_def list_all2_map2 intro!: list_all2_refl)

text \<open>The theorem at an input with a \<open>tool\<close> turn, which folds to \<open>user\<close>.\<close>

theorem claude_format_witness:
  "messages (claudeFormatMessages [\<lparr>role = ''system'', content = ''S''\<rparr>,
                                    \<lparr>role = ''tool'', content = ''t''\<rparr>,
                                    \<lparr>role = ''assistant'', content = ''b''\<rparr>])
     = [\<lparr>role = ''user'', content = ''t''\<rparr>, \<lparr>role = ''assistant'', content = ''b''\<rparr>]"
proof -
  let ?ms = "[\<lparr>role = ''system'', content = ''S''\<rparr>, \<lparr>role = ''tool'', content = ''t''\<rparr>,
              \<lparr>role = ''assistant'', content = ''b''\<rparr>]"
  from claude_format [of ?ms]
  have "list_all2 (\<lambda>msg out. content out = content msg
                   \<and> role out = (if role msg = ''assistant'' then ''assistant'' else ''user''))
        [\<lparr>role = ''tool'', content = ''t''\<rparr>, \<lparr>role = ''assistant'', content = ''b''\<rparr>]
        (messages (claudeFormatMessages ?ms))"
    by simp
  then show ?thesis
    by (auto simp: list_all2_Cons1)
qed

section \<open>Clearing a context\<close>

text \<open>
  C8. After \<open>clearUserContext\<close> a load returns the empty list, for a user with a row
  and for one without. A row that exists is kept, with an empty list of turns and the
  new time stamp; when there is none, the table does not change.
\<close>

theorem clear_then_load:
  "getUserContext (clearUserContext tbl uid now) uid = []
   \<and> (tbl uid \<noteq> None \<longrightarrow>
        clearUserContext tbl uid now = tbl(uid \<mapsto> \<lparr>context' = Some [], updatedAt = now\<rparr>))
   \<and> (tbl uid = None \<longrightarrow> clearUserContext tbl uid now = tbl)"
  by (auto simp: getUserContext_def clearUserContext_def db_get_def db_set_def
      split: option.splits)

text \<open>The theorem at the example table, for alice, who has a row, and carol, who has none.\<close>

theorem clear_then_load_witness:
  "getUserContext (clearUserContext exampleContexts ''alice'' 3000) ''alice'' = []
   \<and> clearUserContext exampleContexts ''alice'' 3000
       = [''alice'' \<mapsto> \<lparr>context' = Some [], updatedAt = 3000\<rparr>]
   \<and> getUserContext (clearUserContext exampleContexts ''carol'' 3000) ''carol'' = []
   \<and> clearUserContext exampleContexts ''carol'' 3000 = exampleContexts"
proof -
  have a: "exampleContexts ''alice'' \<noteq> None" and c: "exampleContexts ''carol'' = None"
    by (simp_all add: exampleContexts_def)
  have e: "exampleContexts(''alice'' \<mapsto> \<lparr>context' = Some [], updatedAt = 3000\<rparr>)
          = [''alice'' \<mapsto> \<lparr>context' = Some [], updatedAt = 3000\<rparr>]"
    by (simp add: exampleContexts_def)
  from clear_then_load [of exampleContexts "''alice''" 3000] a
  have "getUserContext (clearUserContext exampleContexts ''alice'' 3000) ''alice'' = []"
    and "clearUserContext exampleContexts ''alice'' 3000
          = exampleContexts(''alice'' \<mapsto> \<lparr>context' = Some [], updatedAt = 3000\<rparr>)"
    by blast+
  moreover from clear_then_load [of exampleContexts "''carol''" 3000] c
  have "getUserContext (clearUserContext exampleContexts ''carol'' 3000) ''carol'' = []"
    and "clearUserContext exampleContexts ''carol'' 3000 = exampleContexts"
    by blast+
  ultimately show ?thesis by (simp only: e simp_thms)
qed

section \<open>Quota and failed calls\<close>

text \<open>The count stored by the increment that follows an allowed check.\<close>

lemma count_after_use:
  assumes "checkUsageLimit cfg tbl uid d1 = (True, usage1)"
  shows "\<exists>row. updateUsageCount usage1 uid d2 uid = Some row
           \<and> dailyCount row
               = (case tbl uid of
                    None \<Rightarrow> 1
                  | Some r \<Rightarrow> if lastResetDate r = d1 \<and> d1 = d2 then dailyCount r + 1 else 1)"
proof (cases "tbl uid")
  case None
  with assms have "usage1 = tbl" by (simp add: checkUsageLimit_def db_get_def)
  with None show ?thesis by (simp add: updateUsageCount_def db_get_def db_create_def)
next
  case (Some r)
  show ?thesis
  proof (cases "lastResetDate r = d1")
    case True
    with Some assms have "usage1 = tbl" by (simp add: checkUsageLimit_def db_get_def)
    with Some True show ?thesis
      by (simp add: updateUsageCount_def db_get_def db_set_def)
  next
    case False
    with Some assms have "usage1 = tbl(uid \<mapsto> r\<lparr>dailyCount := 0, lastResetDate := d1\<rparr>)"
      by (auto simp: checkUsageLimit_def db_get_def db_set_def)
    with Some False show ?thesis
      by (simp add: updateUsageCount_def db_get_def db_set_def)
  qed
qed

text \<open>
  C9. With the usage limit enabled, a message that passes the gate and the check, and
  whose model call fails, is answered with the apology (which is never empty) and
  counted: the usage table after the call is the one \<open>updateUsageCount\<close> gives, in
  which the user's count is one more than before, or 1 on a new date or a first use. A
  successful call with a non-empty response leaves the same usage table.
\<close>

theorem failed_call_consumes_quota:
  assumes "\<not> handled" and "triggerGate cfg s sample = Some c"
    and "usageEnabled cfg"
    and "checkUsageLimit cfg (usage w) (userId s) (checkDate clk) = (True, usage1)"
    and "0 \<le> contextSize cfg"
  shows "middleware cfg s handled sample clk (Inl err) w
           = Some (w\<lparr>usage := updateUsageCount usage1 (userId s) (updateDate clk),
                      sent := (if showThinkingMessage cfg then sent w @ [thinkingMessage]
                               else sent w) @ [apologyPrefix @ err],
                      handledMark := True\<rparr>)
       \<and> apologyPrefix @ err \<noteq> []
       \<and> (\<exists>row. updateUsageCount usage1 (userId s) (updateDate clk) (userId s) = Some row
             \<and> dailyCount row
                 = (case usage w (userId s) of
                      None \<Rightarrow> 1
                    | Some r \<Rightarrow>
                        if lastResetDate r = checkDate clk \<and> checkDate clk = updateDate clk
                        then dailyCount r + 1 else 1))
       \<and> (response \<noteq> [] \<longrightarrow>
            (\<exists>w'. middleware cfg s handled sample clk (Inr response) w = Some w'
                 \<and> usage w' = updateUsageCount usage1 (userId s) (updateDate clk)))"
proof -
  have run: "middleware cfg s handled sample clk (Inl err) w
           = Some (w\<lparr>usage := updateUsageCount usage1 (userId s) (updateDate clk),
                      sent := (if showThinkingMessage cfg then sent w @ [thinkingMessage]
                               else sent w) @ [apologyPrefix @ err],
                      handledMark := True\<rparr>)"
    using assms(1,2,3,4) messageHandler_failure [OF assms(5)]
    by (simp add: middleware_def Let_def apologyPrefix_nonempty)
  from limitContext_returns [OF assms(5)] obtain ys where
    "limitContext (contextSize cfg)
       (getUserContext (contexts w) (userId s) @ [\<lparr>role = ''user'', content = c\<rparr>]) = Some ys" ..
  from messageHandler_success [OF this, of "saveTime clk" response]
  have ok: "response \<noteq> [] \<longrightarrow>
            (\<exists>w'. middleware cfg s handled sample clk (Inr response) w = Some w'
                 \<and> usage w' = updateUsageCount usage1 (userId s) (updateDate clk))"
    using assms(1,2,3,4) by (simp add: middleware_def Let_def)
  from run ok apologyPrefix_nonempty count_after_use [OF assms(4)] show ?thesis by simp
qed

lemma exampleGate: "triggerGate exampleConfig exampleSession 42 = Some ''how are you''"
  by (simp add: triggerGate_def shouldIgnoreMessage_def strippedContent_def prefixOf_def
      exampleConfig_def exampleSession_def)

text \<open>The theorem at the example: alice's count goes from 2 to 3 on a timed-out call.\<close>

theorem failed_call_consumes_quota_witness:
  "middleware exampleConfig exampleSession False 42 exampleClock (Inl timeoutMessage) exampleWorld
     = Some (exampleWorld
               \<lparr>usage := [''alice'' \<mapsto> \<lparr>dailyCount = 3, lastResetDate = ''2024-05-01''\<rparr>],
                sent := [apologyPrefix @ timeoutMessage],
                handledMark := True\<rparr>)"
proof -
  have b: "usageEnabled exampleConfig" by (simp add: usageEnabled_def exampleConfig_def)
  have c: "checkUsageLimit exampleConfig (usage exampleWorld) (userId exampleSession)
             (checkDate exampleClock) = (True, exampleUsage)"
    by (simp add: checkUsageLimit_def db_get_def exampleWorld_def exampleUsage_def
        exampleSession_def exampleClock_def maxPerDay_def exampleConfig_def)
  have d: "0 \<le> contextSize exampleConfig" by (simp add: exampleConfig_def)
  have e: "updateUsageCount exampleUsage (userId exampleSession) (updateDate exampleClock)
             = [''alice'' \<mapsto> \<lparr>dailyCount = 3, lastResetDate = ''2024-05-01''\<rparr>]"
    by (simp add: updateUsageCount_def db_get_def db_set_def exampleUsage_def exampleSession_def
        exampleClock_def)
  have f: "(if showThinkingMessage exampleConfig then sent exampleWorld @ [thinkingMessage]
            else sent exampleWorld) @ [apologyPrefix @ timeoutMessage]
           = [apologyPrefix @ timeoutMessage]"
    by (simp add: exampleConfig_def exampleWorld_def)
  have a: "\<not> False" by simp
  from failed_call_consumes_quota [OF a exampleGate b c d, of timeoutMessage]
  have "middleware exampleConfig exampleSession False 42 exampleClock (Inl timeoutMessage) exampleWorld
     = Some (exampleWorld
               \<lparr>usage := updateUsageCount exampleUsage (userId exampleSession) (updateDate exampleClock),
                sent := (if showThinkingMessage exampleConfig then sent exampleWorld @ [thinkingMessage]
                         else sent exampleWorld) @ [apologyPrefix @ timeoutMessage],
                handledMark := True\<rparr>)"
    by (rule conjunct1)
  then show ?thesis unfolding e f .
qed

section \<open>Deadlines\<close>

lemma adapterTimeout_const: "adapterTimeout a cfg = 60000"
  by (cases a) (simp_all add: adapterTimeout_def)

text \<open>
  C10. Each adapter's abort timer is 60000 ms whatever the configuration, so changing
  \<open>responseTimeout\<close> changes neither the timer nor the moment a request is aborted: a
  request that \<open>fetch\<close> has not settled before 60000 ms is aborted then. The handler's
  timer is \<open>responseTimeout\<close> seconds, 60 when that is 0, and with
  \<open>responseTimeout\<close> above 60 the adapter's deadline comes first.
\<close>

theorem adapter_deadline_fixed:
  "adapterTimeout a cfg = 60000
   \<and> adapterTimeout a (cfg\<lparr>responseTimeout := r\<rparr>) = adapterTimeout a cfg
   \<and> abortsAt a (cfg\<lparr>responseTimeout := r\<rparr>) fetchSettlesAt = abortsAt a cfg fetchSettlesAt
   \<and> abortsAt a cfg None = Some 60000
   \<and> abortsAt a cfg (Some t) = (if t < 60000 then None else Some 60000)
   \<and> handlerTimeout (cfg\<lparr>responseTimeout := r\<rparr>) = (if r = 0 then 60000 else r * 1000)
   \<and> (60 < responseTimeout cfg \<longrightarrow> adapterTimeout a cfg < handlerTimeout cfg)"
  by (simp add: adapterTimeout_const abortsAt_def handlerTimeout_def split: option.splits)

text \<open>The theorem at \<open>responseTimeout = 120\<close> and a provider that answers after 90 seconds.\<close>

theorem adapter_deadline_fixed_witness:
  "adapterTimeout GeminiAdapter (exampleConfig\<lparr>responseTimeout := 120\<rparr>) = 60000
   \<and> handlerTimeout (exampleConfig\<lparr>responseTimeout := 120\<rparr>) = 120000
   \<and> abortsAt GeminiAdapter (exampleConfig\<lparr>responseTimeout := 120\<rparr>) (Some 90000) = Some 60000"
proof -
  have "60 < responseTimeout (exampleConfig\<lparr>responseTimeout := 120\<rparr>)" by simp
  with adapter_deadline_fixed [of GeminiAdapter "exampleConfig\<lparr>responseTimeout := 120\<rparr>" 120 "Some 90000" 90000]
  show ?thesis by simp
qed

end
